theory Spec2Isabelle
  imports Complex_Main
begin

section \<open>Python strings, JSON values and exceptions\<close>

text \<open>
  Python strings are modelled as \<open>string\<close>, whose characters carry the code points
  0..255.  \<open>str.strip()\<close> without arguments removes the characters for which
  \<open>str.isspace()\<close> holds from both ends; \<open>str.lower()\<close> maps the upper-case
  letters of that range to their lower-case partners.
\<close>

definition py_isspace :: "char \<Rightarrow> bool" where
  "py_isspace c =
     (let n = (of_char c :: nat)
      in (9 \<le> n \<and> n \<le> 13) \<or> (28 \<le> n \<and> n \<le> 32) \<or> n = 133 \<or> n = 160)"

definition py_lower_char :: "char \<Rightarrow> char" where
  "py_lower_char c =
     (let n = (of_char c :: nat)
      in if (65 \<le> n \<and> n \<le> 90) \<or> (192 \<le> n \<and> n \<le> 222 \<and> n \<noteq> 215)
         then char_of (n + 32) else c)"

definition lower :: "string \<Rightarrow> string" where
  "lower s = map py_lower_char s"

definition lstrip :: "string \<Rightarrow> string" where
  "lstrip s = dropWhile py_isspace s"

definition rstrip :: "string \<Rightarrow> string" where
  "rstrip s = rev (dropWhile py_isspace (rev s))"

definition strip :: "string \<Rightarrow> string" where
  "strip s = rstrip (lstrip s)"

text \<open>
  The result of \<open>json.load\<close>: \<open>JNull\<close> is Python's \<open>None\<close>, an object is a
  \<open>dict\<close> given by its items (the first binding of a key is the one looked up).
  A float is given by its value; only whether it is zero matters below.
\<close>

datatype json =
    JNull
  | JBool bool
  | JInt int
  | JFloat real
  | JStr string
  | JArr "json list"
  | JObj "(string \<times> json) list"

text \<open>Truth value of a Python object, as tested by \<open>if x:\<close> and \<open>x or y\<close>.\<close>

fun truthy :: "json \<Rightarrow> bool" where
  "truthy JNull = False"
| "truthy (JBool b) = b"
| "truthy (JInt n) = (n \<noteq> 0)"
| "truthy (JFloat x) = (x \<noteq> 0)"
| "truthy (JStr s) = (s \<noteq> [])"
| "truthy (JArr xs) = (xs \<noteq> [])"
| "truthy (JObj kvs) = (kvs \<noteq> [])"

text \<open>The exceptions that the modelled code can let escape.\<close>

datatype py_exception =
    AttributeError string
  | UnicodeDecodeError

text \<open>The name of a value's Python type, as it appears in an \<open>AttributeError\<close>.\<close>

fun type_name :: "json \<Rightarrow> string" where
  "type_name JNull = ''NoneType''"
| "type_name (JBool _) = ''bool''"
| "type_name (JInt _) = ''int''"
| "type_name (JFloat _) = ''float''"
| "type_name (JStr _) = ''str''"
| "type_name (JArr _) = ''list''"
| "type_name (JObj _) = ''dict''"

text \<open>\<open>x.get(key, default)\<close>: only a \<open>dict\<close> has the method; on any other value the
  attribute lookup raises \<open>AttributeError\<close>.  \<open>x.get(key)\<close> is \<open>x.get(key, None)\<close>.\<close>

fun py_get_default :: "json \<Rightarrow> string \<Rightarrow> json \<Rightarrow> py_exception + json" where
  "py_get_default (JObj kvs) k d = Inr (case map_of kvs k of None \<Rightarrow> d | Some v \<Rightarrow> v)"
| "py_get_default v k d = Inl (AttributeError (type_name v))"

definition py_get :: "json \<Rightarrow> string \<Rightarrow> py_exception + json" where
  "py_get v k = py_get_default v k JNull"

text \<open>\<open>str(x)\<close>: the identity on a string.  The rendering of the other values (numbers,
  lists, dicts) is the interpreter's; it is the parameter \<open>render\<close>.\<close>

fun py_str :: "(json \<Rightarrow> string) \<Rightarrow> json \<Rightarrow> string" where
  "py_str render (JStr s) = s"
| "py_str render v = render v"

datatype log_entry = Debug string | Info string | Warning string | Error string

type_synonym environ = "string \<rightharpoonup> string"

text \<open>\<open>os.environ.get(name, "")\<close>.\<close>

definition environ_get :: "environ \<Rightarrow> string \<Rightarrow> string" where
  "environ_get env name = (case env name of None \<Rightarrow> [] | Some v \<Rightarrow> v)"

text \<open>
  What the code meets at \<open>.auto-claude/settings.json\<close>: no file
  (\<open>settings_path.exists()\<close> is false), a file that cannot be opened or read
  (\<open>OSError\<close>, with its message), a file whose bytes are not UTF-8
  (\<open>UnicodeDecodeError\<close> from the text-mode read), a file that is not JSON
  (\<open>json.JSONDecodeError\<close>, with its message), or a JSON document.
\<close>

datatype settings_file =
    NoFile
  | ReadFails string
  | NotUtf8
  | NotJson string
  | Document json

section \<open>\<open>core/cli_manager.py\<close>\<close>

datatype CLIType = CLAUDE | OPENCODE

fun CLIType_value :: "CLIType \<Rightarrow> string" where
  "CLIType_value CLAUDE = ''claude''"
| "CLIType_value OPENCODE = ''opencode''"

datatype CLIProvider = Provider_CLAUDE | OPENAI | GOOGLE | ZEN | LOCAL

fun CLIProvider_value :: "CLIProvider \<Rightarrow> string" where
  "CLIProvider_value Provider_CLAUDE = ''claude''"
| "CLIProvider_value OPENAI = ''openai''"
| "CLIProvider_value GOOGLE = ''google''"
| "CLIProvider_value ZEN = ''zen''"
| "CLIProvider_value LOCAL = ''local''"

text \<open>The members of \<open>CLIProvider\<close> in definition order (\<open>for p in CLIProvider\<close>).\<close>

definition CLIProvider_members :: "CLIProvider list" where
  "CLIProvider_members = [Provider_CLAUDE, OPENAI, GOOGLE, ZEN, LOCAL]"

text \<open>\<open>CLIProvider(s)\<close>: the member with that value; \<open>None\<close> stands for the
  \<open>ValueError\<close> of the enum lookup, which the caller catches.\<close>

definition CLIProvider_of_value :: "string \<Rightarrow> CLIProvider option" where
  "CLIProvider_of_value s = find (\<lambda>p. CLIProvider_value p = s) CLIProvider_members"

definition CLI_PROVIDER_ENV :: string where "CLI_PROVIDER_ENV = ''CLI_PROVIDER''"
definition OPENCODE_PROVIDER_ENV :: string where "OPENCODE_PROVIDER_ENV = ''OPENCODE_PROVIDER''"
definition OPENCODE_API_KEY_ENV :: string where "OPENCODE_API_KEY_ENV = ''OPENCODE_API_KEY''"

subsection \<open>\<open>CLIManager._detect_cli\<close>\<close>

text \<open>
  Every function of the manager returns the log records it emits together with its
  result; a result \<open>Inl e\<close> is the exception \<open>e\<close> leaving the function.

  The settings step of \<open>_detect_cli\<close>.  The \<open>except\<close> clause names
  \<open>json.JSONDecodeError\<close>, \<open>IOError\<close> and \<open>OSError\<close>; an \<open>AttributeError\<close> or a
  \<open>UnicodeDecodeError\<close> raised inside the \<open>try\<close> is none of them and leaves the function.
  \<open>None\<close> as result means that the step decided nothing and the default follows.
\<close>

definition detect_cli_settings ::
  "(json \<Rightarrow> string) \<Rightarrow> settings_file \<Rightarrow> log_entry list \<times> (py_exception + CLIType option)" where
  "detect_cli_settings render sf =
     (case sf of
        NoFile \<Rightarrow> ([], Inr None)
      | ReadFails msg \<Rightarrow> ([Debug (''Failed to read settings file: '' @ msg)], Inr None)
      | NotUtf8 \<Rightarrow> ([], Inl UnicodeDecodeError)
      | NotJson msg \<Rightarrow> ([Debug (''Failed to read settings file: '' @ msg)], Inr None)
      | Document settings \<Rightarrow>
          (case py_get settings ''cli'' of
             Inl e \<Rightarrow> ([], Inl e)
           | Inr cli \<Rightarrow>
               if truthy cli then
                 (let cli' = lower (strip (py_str render cli))
                  in if cli' = CLIType_value OPENCODE then
                       ([Info (''CLI from settings: '' @ CLIType_value OPENCODE)], Inr (Some OPENCODE))
                     else if cli' = CLIType_value CLAUDE then
                       ([Info (''CLI from settings: '' @ CLIType_value CLAUDE)], Inr (Some CLAUDE))
                     else
                       ([Warning (''Invalid CLI value in settings: '' @ [CHR 0x27] @ cli' @ [CHR 0x27]
                                  @ ''. Using default: '' @ CLIType_value CLAUDE)], Inr None))
               else ([], Inr None)))"

definition detect_cli ::
  "(json \<Rightarrow> string) \<Rightarrow> environ \<Rightarrow> settings_file \<Rightarrow> log_entry list \<times> (py_exception + CLIType)" where
  "detect_cli render env sf =
     (let env_cli = lower (strip (environ_get env CLI_PROVIDER_ENV))
      in if env_cli \<noteq> [] \<and> env_cli = CLIType_value OPENCODE then
           ([Info (''CLI from environment: '' @ CLIType_value OPENCODE)], Inr OPENCODE)
         else if env_cli \<noteq> [] \<and> env_cli = CLIType_value CLAUDE then
           ([Info (''CLI from environment: '' @ CLIType_value CLAUDE)], Inr CLAUDE)
         else
           (let log1 = (if env_cli \<noteq> [] then
                          [Warning (''Invalid CLI_PROVIDER value: '' @ [CHR 0x27] @ env_cli @ [CHR 0x27]
                                    @ ''. Valid values: claude, opencode. Falling back to default.'')]
                        else [])
            in case detect_cli_settings render sf of
                 (log2, Inl e) \<Rightarrow> (log1 @ log2, Inl e)
               | (log2, Inr (Some t)) \<Rightarrow> (log1 @ log2, Inr t)
               | (log2, Inr None) \<Rightarrow>
                   (log1 @ log2 @ [Info (''Using default CLI: '' @ CLIType_value CLAUDE)], Inr CLAUDE)))"

subsection \<open>\<open>CLIManager.__init__\<close>\<close>

text \<open>The manager holds the resolved project directory, here the argument \<open>dir\<close>, and
  the result of \<open>_detect_cli\<close>.\<close>

record CLIManager =
  project_dir :: string
  cli_type :: CLIType

definition CLIManager_init ::
  "(json \<Rightarrow> string) \<Rightarrow> environ \<Rightarrow> settings_file \<Rightarrow> string
     \<Rightarrow> log_entry list \<times> (py_exception + CLIManager)" where
  "CLIManager_init render env sf dir =
     (case detect_cli render env sf of
        (lg, Inl e) \<Rightarrow> (lg, Inl e)
      | (lg, Inr t) \<Rightarrow>
          (lg @ [Info (''Initialized CLIManager with CLI type: '' @ CLIType_value t)],
           Inr \<lparr>project_dir = dir, cli_type = t\<rparr>))"

subsection \<open>\<open>CLIManager.get_opencode_provider\<close>\<close>

text \<open>
  The settings step runs only when the normalised environment value is empty.  It returns
  the new \<open>provider_str\<close>; the \<open>except\<close> clause names \<open>json.JSONDecodeError\<close> and
  \<open>IOError\<close> only.
\<close>

definition opencode_provider_settings ::
  "(json \<Rightarrow> string) \<Rightarrow> settings_file \<Rightarrow> py_exception + string" where
  "opencode_provider_settings render sf =
     (case sf of
        NoFile \<Rightarrow> Inr []
      | ReadFails msg \<Rightarrow> Inr []
      | NotUtf8 \<Rightarrow> Inl UnicodeDecodeError
      | NotJson msg \<Rightarrow> Inr []
      | Document settings \<Rightarrow>
          (case py_get_default settings ''opencode'' (JObj []) of
             Inl e \<Rightarrow> Inl e
           | Inr opencode_config \<Rightarrow>
               (case py_get opencode_config ''provider'' of
                  Inl e \<Rightarrow> Inl e
                | Inr provider \<Rightarrow>
                    if truthy provider then Inr (lower (strip (py_str render provider)))
                    else Inr [])))"

definition get_opencode_provider ::
  "(json \<Rightarrow> string) \<Rightarrow> environ \<Rightarrow> settings_file
     \<Rightarrow> log_entry list \<times> (py_exception + CLIProvider)" where
  "get_opencode_provider render env sf =
     (let provider_str = lower (strip (environ_get env OPENCODE_PROVIDER_ENV))
      in case (if provider_str = [] then opencode_provider_settings render sf
               else Inr provider_str) of
           Inl e \<Rightarrow> ([], Inl e)
         | Inr provider_str \<Rightarrow>
             (let provider_str = (if provider_str = [] then CLIProvider_value Provider_CLAUDE
                                  else provider_str)
              in case CLIProvider_of_value provider_str of
                   Some p \<Rightarrow> ([], Inr p)
                 | None \<Rightarrow>
                     ([Warning (''Invalid OpenCode provider: '' @ [CHR 0x27] @ provider_str
                                @ [CHR 0x27] @ ''. Falling back to default: ''
                                @ CLIProvider_value Provider_CLAUDE)],
                      Inr Provider_CLAUDE)))"

subsection \<open>Locating and validating the executable\<close>










section \<open>\<open>cli/main.py\<close>\<close>

subsection \<open>\<open>parse_args\<close>: the declared options\<close>

text \<open>
  The \<open>store_true\<close> options, named by their \<open>dest\<close>, and the options that store a
  string.  \<open>--max-iterations\<close> stores an \<open>int\<close> and has an action of its own.
\<close>

datatype flag =
    F_list | F_info | F_verbose | F_isolated | F_direct
  | F_merge | F_review | F_discard | F_create_pr
  | F_pr_draft | F_no_commit | F_merge_preview
  | F_qa | F_qa_status | F_skip_qa | F_followup | F_review_status
  | F_auto_continue | F_list_worktrees | F_cleanup_worktrees | F_force
  | F_batch_status | F_batch_cleanup | F_no_dry_run

datatype valued =
    V_spec | V_project_dir | V_model | V_cli | V_pr_target | V_pr_title
  | V_base_branch | V_batch_create

datatype action = Help | StoreTrue flag | Store valued | StoreInt

text \<open>The option strings in the order of the \<open>add_argument\<close> calls; \<open>ArgumentParser\<close>
  itself adds \<open>-h\<close> and \<open>--help\<close> first.\<close>

definition parser_options :: "(string \<times> action) list" where
  "parser_options =
     [(''-h'', Help), (''--help'', Help),
      (''--list'', StoreTrue F_list),
      (''--spec'', Store V_spec),
      (''--project-dir'', Store V_project_dir),
      (''--max-iterations'', StoreInt),
      (''--model'', Store V_model),
      (''--cli'', Store V_cli),
      (''--info'', StoreTrue F_info),
      (''--verbose'', StoreTrue F_verbose),
      (''--isolated'', StoreTrue F_isolated),
      (''--direct'', StoreTrue F_direct),
      (''--merge'', StoreTrue F_merge),
      (''--review'', StoreTrue F_review),
      (''--discard'', StoreTrue F_discard),
      (''--create-pr'', StoreTrue F_create_pr),
      (''--pr-target'', Store V_pr_target),
      (''--pr-title'', Store V_pr_title),
      (''--pr-draft'', StoreTrue F_pr_draft),
      (''--no-commit'', StoreTrue F_no_commit),
      (''--merge-preview'', StoreTrue F_merge_preview),
      (''--qa'', StoreTrue F_qa),
      (''--qa-status'', StoreTrue F_qa_status),
      (''--skip-qa'', StoreTrue F_skip_qa),
      (''--followup'', StoreTrue F_followup),
      (''--review-status'', StoreTrue F_review_status),
      (''--auto-continue'', StoreTrue F_auto_continue),
      (''--list-worktrees'', StoreTrue F_list_worktrees),
      (''--cleanup-worktrees'', StoreTrue F_cleanup_worktrees),
      (''--force'', StoreTrue F_force),
      (''--base-branch'', Store V_base_branch),
      (''--batch-create'', Store V_batch_create),
      (''--batch-status'', StoreTrue F_batch_status),
      (''--batch-cleanup'', StoreTrue F_batch_cleanup),
      (''--no-dry-run'', StoreTrue F_no_dry_run)]"

text \<open>The two \<open>add_mutually_exclusive_group\<close> groups, with the options added to each.\<close>

definition workspace_group :: "flag list" where
  "workspace_group = [F_isolated, F_direct]"

definition build_group :: "flag list" where
  "build_group = [F_merge, F_review, F_discard, F_create_pr]"

definition mutually_exclusive_groups :: "flag list list" where
  "mutually_exclusive_groups = [workspace_group, build_group]"

text \<open>Two different options of one group conflict.\<close>

definition conflicts :: "flag \<Rightarrow> flag \<Rightarrow> bool" where
  "conflicts f g = (f \<noteq> g \<and> list_ex (\<lambda>grp. f \<in> set grp \<and> g \<in> set grp) mutually_exclusive_groups)"

text \<open>\<open>choices=["claude", "opencode"]\<close> of \<open>--cli\<close>.\<close>

definition cli_choices :: "string list" where
  "cli_choices = [''claude'', ''opencode'']"

record namespace =
  flags :: "flag \<Rightarrow> bool"
  opts :: "valued \<Rightarrow> string option"
  max_iterations :: "int option"

text \<open>Every \<open>store_true\<close> option defaults to \<open>False\<close>, every other one to \<open>None\<close>.\<close>

definition default_namespace :: namespace where
  "default_namespace = \<lparr>flags = (\<lambda>_. False), opts = (\<lambda>_. None), max_iterations = None\<rparr>"

subsection \<open>\<open>parse_args\<close>: the behaviour of \<open>argparse\<close>\<close>

text \<open>
  The part of \<open>ArgumentParser.parse_args\<close> that this parser exercises.  An argument is
  first classified (\<open>_parse_optional\<close>): an exact option string, \<open>--opt=value\<close>, an
  unambiguous prefix of a long option, or else a positional string (which this parser,
  having no positional arguments, reports as unrecognised once all options are processed).
  Errors leave with exit code 2, \<open>--help\<close> with exit code 0.  Not modelled: the \<open>--\<close>
  separator and single-dash flags glued together, which are taken as errors.
\<close>

definition is_digit :: "char \<Rightarrow> bool" where
  "is_digit c = (let n = (of_char c :: nat) in 48 \<le> n \<and> n \<le> 57)"

definition starts_with :: "string \<Rightarrow> string \<Rightarrow> bool" where
  "starts_with s p = (take (length p) s = p)"

text \<open>\<open>s.split('=', 1)\<close> for a string that contains \<open>=\<close>.\<close>

definition split_eq :: "string \<Rightarrow> string \<times> string" where
  "split_eq s = (takeWhile (\<lambda>c. c \<noteq> CHR ''='') s, drop 1 (dropWhile (\<lambda>c. c \<noteq> CHR ''='') s))"

text \<open>The parser's \<open>_negative_number_matcher\<close>, \<open>'^-\<bslash>d+$|^-\<bslash>d*\<bslash>.\<bslash>d+$'\<close>; \<open>$\<close> also matches
  before a final newline.\<close>

definition negative_number :: "string \<Rightarrow> bool" where
  "negative_number s =
     (case s of
        [] \<Rightarrow> False
      | c # r0 \<Rightarrow>
          (let r = (if r0 \<noteq> [] \<and> last r0 = CHR 0x0A then butlast r0 else r0);
               rest = dropWhile is_digit r
           in c = CHR ''-'' \<and>
              ((r \<noteq> [] \<and> rest = []) \<or>
               (case rest of
                  [] \<Rightarrow> False
                | d # fr \<Rightarrow> d = CHR ''.'' \<and> fr \<noteq> [] \<and> list_all is_digit fr))))"

datatype classified =
    Positional
  | Ambiguous
  | Optional "action option" "string option"

text \<open>\<open>_get_option_tuples\<close>: the declared options that an abbreviation may stand for,
  each with the explicit argument it would carry.\<close>

definition get_option_tuples :: "string \<Rightarrow> classified list" where
  "get_option_tuples s =
     (case s of
        c1 # c2 # _ \<Rightarrow>
          if c2 = CHR ''-'' then
            (let option_prefix = (if CHR ''='' \<in> set s then fst (split_eq s) else s);
                 explicit_arg = (if CHR ''='' \<in> set s then Some (snd (split_eq s)) else None)
             in map (\<lambda>(opt, a). Optional (Some a) explicit_arg)
                  (filter (\<lambda>(opt, a). starts_with opt option_prefix) parser_options))
          else
            concat (map (\<lambda>(opt, a).
                      if opt = take 2 s then [Optional (Some a) (Some (drop 2 s))]
                      else if starts_with opt s then [Optional (Some a) None]
                      else []) parser_options)
      | _ \<Rightarrow> [])"

definition parse_optional :: "string \<Rightarrow> classified" where
  "parse_optional s =
     (case s of
        [] \<Rightarrow> Positional
      | c # cs \<Rightarrow>
          if c \<noteq> CHR ''-'' then Positional
          else
            (case map_of parser_options s of
               Some a \<Rightarrow> Optional (Some a) None
             | None \<Rightarrow>
                 if cs = [] then Positional
                 else
                   (case (if CHR ''='' \<in> set s then map_of parser_options (fst (split_eq s))
                          else None) of
                      Some a \<Rightarrow> Optional (Some a) (Some (snd (split_eq s)))
                    | None \<Rightarrow>
                        (case get_option_tuples s of
                           [] \<Rightarrow>
                             if negative_number s then Positional
                             else if CHR '' '' \<in> set s then Positional
                             else Optional None None
                         | [t] \<Rightarrow> t
                         | _ \<Rightarrow> Ambiguous))))"

text \<open>\<open>int(s)\<close> for \<open>type=int\<close>: surrounding whitespace, an optional sign, decimal digits
  with single underscores between them.  \<open>None\<close> is the \<open>ValueError\<close>, which
  \<open>argparse\<close> turns into an error.\<close>

definition digits_ok :: "string \<Rightarrow> bool" where
  "digits_ok b =
     (b \<noteq> [] \<and> is_digit (hd b) \<and> is_digit (last b)
      \<and> list_all (\<lambda>c. is_digit c \<or> c = CHR ''_'') b
      \<and> list_all (\<lambda>(c, d). \<not> (c = CHR ''_'' \<and> d = CHR ''_'')) (zip b (drop 1 b)))"

definition digits_value :: "string \<Rightarrow> int" where
  "digits_value b = foldl (\<lambda>acc c. acc * 10 + (int (of_char c) - 48)) 0 (filter is_digit b)"

definition py_int :: "string \<Rightarrow> int option" where
  "py_int s =
     (let t = strip s;
          neg = (t \<noteq> [] \<and> hd t = CHR ''-'');
          body = (if t \<noteq> [] \<and> (hd t = CHR ''-'' \<or> hd t = CHR ''+'') then tl t else t)
      in if digits_ok body then Some (if neg then - digits_value body else digits_value body)
         else None)"

text \<open>Storing the argument of an option: conversion by \<open>type\<close>, then the check against
  \<open>choices\<close>.  \<open>None\<close> is the parser's error.\<close>

fun store_value :: "action \<Rightarrow> string \<Rightarrow> namespace \<Rightarrow> namespace option" where
  "store_value (Store v) text ns =
     (if v = V_cli \<and> text \<notin> set cli_choices then None
      else Some (ns\<lparr>opts := (opts ns)(v \<mapsto> text)\<rparr>))"
| "store_value StoreInt text ns =
     (case py_int text of
        None \<Rightarrow> None
      | Some n \<Rightarrow> Some (ns\<lparr>max_iterations := Some n\<rparr>))"
| "store_value _ text ns = None"

datatype parse_result = Parsed namespace | ParserExit int

text \<open>
  The options are processed from left to right.  \<open>seen\<close> holds the \<open>store_true\<close>
  options met so far (\<open>seen_non_default_actions\<close>); meeting an option that conflicts with
  one of them is the error ``not allowed with argument''.  \<open>extras\<close> tells whether an
  unrecognised argument was met; that error is raised at the end only.
\<close>

fun consume_args :: "string list \<Rightarrow> namespace \<Rightarrow> flag list \<Rightarrow> bool \<Rightarrow> parse_result" where
  "consume_args [] ns seen extras = (if extras then ParserExit 2 else Parsed ns)"
| "consume_args (a # rest) ns seen extras =
     (if a = ''--'' then ParserExit 2
      else
        (case parse_optional a of
           Positional \<Rightarrow> consume_args rest ns seen True
         | Ambiguous \<Rightarrow> ParserExit 2
         | Optional None explicit_arg \<Rightarrow> consume_args rest ns seen True
         | Optional (Some Help) explicit_arg \<Rightarrow>
             (if explicit_arg = None then ParserExit 0 else ParserExit 2)
         | Optional (Some (StoreTrue f)) explicit_arg \<Rightarrow>
             (if explicit_arg \<noteq> None then ParserExit 2
              else if list_ex (conflicts f) seen then ParserExit 2
              else consume_args rest (ns\<lparr>flags := (flags ns)(f := True)\<rparr>) (f # seen) extras)
         | Optional (Some act) (Some e) \<Rightarrow>
             (case store_value act e ns of
                None \<Rightarrow> ParserExit 2
              | Some ns' \<Rightarrow> consume_args rest ns' seen extras)
         | Optional (Some act) None \<Rightarrow>
             (case rest of
                [] \<Rightarrow> ParserExit 2
              | b # rest' \<Rightarrow>
                  if b \<noteq> ''--'' \<and> parse_optional b = Positional then
                    (case store_value act b ns of
                       None \<Rightarrow> ParserExit 2
                     | Some ns' \<Rightarrow> consume_args rest' ns' seen extras)
                  else ParserExit 2)))"

text \<open>All arguments before a \<open>--\<close> are classified before any option is processed, so an
  ambiguous abbreviation anywhere among them is an error.\<close>

definition parse_args :: "string list \<Rightarrow> parse_result" where
  "parse_args argv =
     (if list_ex (\<lambda>a. parse_optional a = Ambiguous) (takeWhile (\<lambda>a. a \<noteq> ''--'') argv)
      then ParserExit 2
      else consume_args argv default_namespace [] False)"

subsection \<open>\<open>_run_cli\<close>\<close>

text \<open>
  A \<open>Path\<close> returned by \<open>find_spec\<close>, with the attribute \<open>name\<close> that the
  dispatcher reads.
\<close>

record path =
  path_text :: string
  path_name :: string

text \<open>
  The functions that \<open>_run_cli\<close> calls live in modules outside these files; a run is
  described by what they return in it: \<open>get_project_dir\<close>, \<open>find_spec\<close>, the text
  \<open>json.dumps\<close> makes of the merge preview, whether \<open>handle_merge_command\<close> reports
  success, and whether the result of \<open>handle_create_pr_command\<close> has a true
  \<open>success\<close> entry.
\<close>

record collaborators =
  get_project_dir :: "string option \<Rightarrow> string"
  find_spec :: "string \<Rightarrow> string \<Rightarrow> path option"
  merge_preview_json :: string
  merge_success :: bool
  create_pr_success :: bool

text \<open>
  The observable steps of a run, in order: assignments to \<open>os.environ\<close>, printed lines,
  and calls of the printing helpers and of the command handlers, each with its arguments
  in the order of the source.  The \<open>debug\<close> and Sentry calls are left out.
\<close>

datatype event =
    SetEnv string string
  | Print string
  | Call_print_banner
  | Call_print_specs_list string
  | Call_print_cli_and_auth_info string
  | Call_handle_merge_preview_command string string "string option"
  | Call_handle_merge_command string string bool "string option"
  | Call_handle_review_command string string
  | Call_handle_discard_command string string
  | Call_handle_create_pr_command string string "string option" "string option" bool
  | Call_handle_qa_status_command path
  | Call_handle_review_status_command path
  | Call_handle_qa_command string path "string option" bool
  | Call_handle_followup_command string path "string option" bool
  | Call_handle_build_command string path "string option" "int option" bool bool bool bool
      bool bool "string option"

datatype status = Returned | Exited int

record outcome =
  final_env :: environ
  events :: "event list"
  status :: status

text \<open>\<open>if x:\<close> for an optional string: neither \<open>None\<close> nor empty.\<close>

definition given :: "string option \<Rightarrow> bool" where
  "given x = (case x of None \<Rightarrow> False | Some v \<Rightarrow> v \<noteq> [])"

text \<open>The chain of \<open>if args.\<dots>: \<dots> return\<close> statements after the spec is found, ending
  in the normal build.\<close>

definition dispatch ::
  "collaborators \<Rightarrow> namespace \<Rightarrow> string \<Rightarrow> path \<Rightarrow> string option \<Rightarrow> event list \<times> status" where
  "dispatch c args proj_dir spec_dir model =
     (if flags args F_merge_preview then
        ([Call_handle_merge_preview_command proj_dir (path_name spec_dir)
            (opts args V_base_branch),
          Print (merge_preview_json c)], Returned)
      else if flags args F_merge then
        ([Call_handle_merge_command proj_dir (path_name spec_dir) (flags args F_no_commit)
            (opts args V_base_branch)],
         if \<not> merge_success c then Exited 1 else Returned)
      else if flags args F_review then
        ([Call_handle_review_command proj_dir (path_name spec_dir)], Returned)
      else if flags args F_discard then
        ([Call_handle_discard_command proj_dir (path_name spec_dir)], Returned)
      else if flags args F_create_pr then
        ([Call_handle_create_pr_command proj_dir (path_name spec_dir) (opts args V_pr_target)
            (opts args V_pr_title) (flags args F_pr_draft)],
         if \<not> create_pr_success c then Exited 1 else Returned)
      else if flags args F_qa_status then
        ([Call_handle_qa_status_command spec_dir], Returned)
      else if flags args F_review_status then
        ([Call_handle_review_status_command spec_dir], Returned)
      else if flags args F_qa then
        ([Call_handle_qa_command proj_dir spec_dir model (flags args F_verbose)], Returned)
      else if flags args F_followup then
        ([Call_handle_followup_command proj_dir spec_dir model (flags args F_verbose)],
         Returned)
      else
        ([Call_handle_build_command proj_dir spec_dir model (max_iterations args)
            (flags args F_verbose) (flags args F_isolated) (flags args F_direct)
            (flags args F_auto_continue) (flags args F_skip_qa) (flags args F_force)
            (opts args V_base_branch)], Returned))"

text \<open>
  \<open>_run_cli\<close> after \<open>parse_args\<close>.  The source has the line \<open>if not args.spec:\<close>
  twice in a row in front of the block that prints the usage; the model has the one test
  that both lines make.  Between the \<open>--info\<close> block and this test the source has no
  statement: nothing reads \<open>args.list\<close>.
\<close>

definition run_cli_args :: "collaborators \<Rightarrow> environ \<Rightarrow> namespace \<Rightarrow> outcome" where
  "run_cli_args c env args =
     (let proj_dir = get_project_dir c (opts args V_project_dir);
          model = (if given (opts args V_model) then opts args V_model
                   else env ''AUTO_BUILD_MODEL'');
          env1 = (if given (opts args V_cli) then env(''CLI_PROVIDER'' := opts args V_cli)
                  else env);
          ev1 = (if given (opts args V_cli) then [SetEnv ''CLI_PROVIDER'' (the (opts args V_cli))]
                 else [])
      in if flags args F_info then
           \<lparr>final_env = env1, events = ev1 @ [Call_print_cli_and_auth_info proj_dir],
            status = Returned\<rparr>
         else if \<not> given (opts args V_spec) then
           \<lparr>final_env = env1,
            events = ev1 @
              [Call_print_banner,
               Print ''\<newline>Error: --spec is required'',
               Print ''\<newline>Usage:'',
               Print ''  python auto-claude/run.py --list           # See all specs'',
               Print ''  python auto-claude/run.py --spec 001       # Run a spec'',
               Print ''\<newline>Create a new spec with:'',
               Print ''  claude /spec''],
            status = Exited 1\<rparr>
         else
           (case find_spec c proj_dir (the (opts args V_spec)) of
              None \<Rightarrow>
                \<lparr>final_env = env1,
                 events = ev1 @
                   [Call_print_banner,
                    Print (''\<newline>Error: Spec '' @ [CHR 0x27] @ the (opts args V_spec)
                           @ [CHR 0x27] @ '' not found''),
                    Print ''\<newline>Available specs:'',
                    Call_print_specs_list proj_dir],
                 status = Exited 1\<rparr>
            | Some spec_dir \<Rightarrow>
                (let (ev2, st) = dispatch c args proj_dir spec_dir model
                 in \<lparr>final_env = env1, events = ev1 @ ev2, status = st\<rparr>)))"

text \<open>\<open>_run_cli\<close>: an exit of the parser ends the run before anything else happens.\<close>

definition run_cli :: "collaborators \<Rightarrow> environ \<Rightarrow> string list \<Rightarrow> outcome" where
  "run_cli c env argv =
     (case parse_args argv of
        ParserExit n \<Rightarrow> \<lparr>final_env = env, events = [], status = Exited n\<rparr>
      | Parsed args \<Rightarrow> run_cli_args c env args)"

section \<open>Notions of the specification\<close>

text \<open>The command handlers that \<open>_run_cli\<close> can call once a spec is resolved, and the
  handler that an event is a call of.\<close>

datatype handler =
    H_merge_preview | H_merge | H_review | H_discard | H_create_pr
  | H_qa_status | H_review_status | H_qa | H_followup | H_build

fun handler_of :: "event \<Rightarrow> handler option" where
  "handler_of (Call_handle_merge_preview_command _ _ _) = Some H_merge_preview"
| "handler_of (Call_handle_merge_command _ _ _ _) = Some H_merge"
| "handler_of (Call_handle_review_command _ _) = Some H_review"
| "handler_of (Call_handle_discard_command _ _) = Some H_discard"
| "handler_of (Call_handle_create_pr_command _ _ _ _ _) = Some H_create_pr"
| "handler_of (Call_handle_qa_status_command _) = Some H_qa_status"
| "handler_of (Call_handle_review_status_command _) = Some H_review_status"
| "handler_of (Call_handle_qa_command _ _ _ _) = Some H_qa"
| "handler_of (Call_handle_followup_command _ _ _ _) = Some H_followup"
| "handler_of (Call_handle_build_command _ _ _ _ _ _ _ _ _ _ _) = Some H_build"
| "handler_of _ = None"

definition handlers_called :: "event list \<Rightarrow> handler list" where
  "handlers_called evs = List.map_filter handler_of evs"

text \<open>
  The fixed priority order of the specification: merge-preview, merge, review, discard,
  create-pr, qa-status, review-status, qa, followup; the handler selected for a set of
  requested flags is that of the first requested flag in this order, and the default
  build when none is requested.
\<close>

definition terminal_priority :: "(flag \<times> handler) list" where
  "terminal_priority =
     [(F_merge_preview, H_merge_preview), (F_merge, H_merge), (F_review, H_review),
      (F_discard, H_discard), (F_create_pr, H_create_pr), (F_qa_status, H_qa_status),
      (F_review_status, H_review_status), (F_qa, H_qa), (F_followup, H_followup)]"

definition selected_handler :: "(flag \<Rightarrow> bool) \<Rightarrow> handler" where
  "selected_handler requested =
     (case find (\<lambda>(f, h). requested f) terminal_priority of
        Some (f, h) \<Rightarrow> h
      | None \<Rightarrow> H_build)"

section \<open>Sample runs\<close>

text \<open>A project without specs and one with the spec \<open>001-initial-app\<close>; a
  namespace with \<open>spec\<close>, \<open>merge\<close> and \<open>review\<close> set; machines on which
  \<open>claude\<close> is on the search path and running it has a given outcome, a machine
  without \<open>claude\<close>, and one on which the path found does not exist; a rendering of
  the non-string values, which none of the runs evaluated below consults.\<close>

definition render_none :: "json \<Rightarrow> string" where
  "render_none v = []"

definition no_specs :: collaborators where
  "no_specs = \<lparr>get_project_dir = (\<lambda>d. case d of None \<Rightarrow> ''/project'' | Some p \<Rightarrow> p),
               find_spec = (\<lambda>d s. None), merge_preview_json = ''{}'',
               merge_success = True, create_pr_success = True\<rparr>"

definition spec_001 :: path where
  "spec_001 = \<lparr>path_text = ''/project/.auto-claude/specs/001-initial-app'',
               path_name = ''001-initial-app''\<rparr>"

definition one_spec :: collaborators where
  "one_spec = no_specs\<lparr>find_spec := (\<lambda>d s. if s = ''001'' then Some spec_001 else None)\<rparr>"

definition merge_and_review :: namespace where
  "merge_and_review =
     default_namespace\<lparr>flags := (flags default_namespace)(F_merge := True, F_review := True),
                        opts := (opts default_namespace)(V_spec \<mapsto> ''001'')\<rparr>"





section \<open>Properties\<close>

subsection \<open>Strings\<close>

lemma strip_all_space:
  assumes "list_all py_isspace s"
  shows "strip s = []"
proof -
  from assms have "dropWhile py_isspace s = []"
    by (simp add: list_all_iff)
  then show ?thesis
    by (simp add: strip_def lstrip_def rstrip_def del: dropWhile_eq_Nil_conv)
qed

lemma lower_eq_Nil: "(lower s = []) = (s = [])"
  by (simp add: lower_def)

lemma space_lower_fixed: "py_isspace c \<Longrightarrow> py_lower_char c = c"
  by (auto simp: py_isspace_def py_lower_char_def Let_def)

lemma dropWhile_none: "\<forall>c\<in>set s. \<not> P c \<Longrightarrow> dropWhile P s = s"
  by (cases s) simp_all

lemma strip_no_space: "\<forall>c\<in>set s. \<not> py_isspace c \<Longrightarrow> strip s = s"
  by (simp add: strip_def lstrip_def rstrip_def dropWhile_none)

lemma lower_no_space:
  assumes "lower s = t" and "\<forall>c\<in>set t. \<not> py_isspace c"
  shows "strip s = s"
proof (rule strip_no_space, rule ballI)
  fix c assume c: "c \<in> set s"
  with assms(1) have "py_lower_char c \<in> set t"
    by (auto simp: lower_def)
  with assms(2) have "\<not> py_isspace (py_lower_char c)" by blast
  then show "\<not> py_isspace c"
    using space_lower_fixed [of c] by auto
qed

lemma opencode_no_space: "\<forall>c\<in>set ''opencode''. \<not> py_isspace c"
  by (simp add: py_isspace_def)

lemma norm_claude: "lower (strip ''claude'') = ''claude''"
  by code_simp

lemma norm_opencode: "lower (strip ''opencode'') = ''opencode''"
  by code_simp

subsection \<open>The parser\<close>

text \<open>
  An invariant of the namespace and of the options seen, kept by the two kinds of steps
  that change them, holds of every namespace that the parser returns.
\<close>

lemma consume_args_invariant:
  assumes run: "consume_args argv ns seen extras = Parsed ns'"
      and init: "I ns seen"
      and step_flag: "\<And>ns seen f. I ns seen \<Longrightarrow> \<not> list_ex (conflicts f) seen
                        \<Longrightarrow> I (ns\<lparr>flags := (flags ns)(f := True)\<rparr>) (f # seen)"
      and step_store: "\<And>ns seen act e ns1. I ns seen \<Longrightarrow> store_value act e ns = Some ns1
                        \<Longrightarrow> I ns1 seen"
  shows "\<exists>seen'. I ns' seen'"
  using run init
proof (induction argv ns seen extras rule: consume_args.induct)
  case (1 ns seen extras)
  then show ?case by (auto split: if_splits)
next
  case (2 a rest ns seen extras)
  from "2.prems"(1) have ne: "a \<noteq> ''--''"
    by (auto split: if_splits)
  show ?case
  proof (cases "parse_optional a")
    case Positional
    with 2 ne show ?thesis by simp
  next
    case Ambiguous
    with "2.prems" ne show ?thesis by simp
  next
    case (Optional ao ex)
    show ?thesis
    proof (cases ao)
      case None
      with 2 ne Optional show ?thesis by simp
    next
      case (Some act)
      note po = Optional [unfolded Some]
      show ?thesis
      proof (cases act)
        case Help
        with "2.prems" ne po show ?thesis by (simp split: if_splits)
      next
        case (StoreTrue f)
        from "2.prems"(1) ne po StoreTrue
        have ex: "ex = None" and nc: "\<not> list_ex (conflicts f) seen"
          and rec: "consume_args rest (ns\<lparr>flags := (flags ns)(f := True)\<rparr>) (f # seen) extras
                      = Parsed ns'"
          by (auto split: if_splits)
        from step_flag [OF "2.prems"(2) nc]
        have "I (ns\<lparr>flags := (flags ns)(f := True)\<rparr>) (f # seen)" .
        with "2.IH" ne po StoreTrue ex nc rec show ?thesis
          by blast
      next
        case (Store v)
        show ?thesis
        proof (cases ex)
          case (Some e)
          from "2.prems"(1) ne po Store Some obtain ns1
            where sv: "store_value (Store v) e ns = Some ns1"
              and rec: "consume_args rest ns1 seen extras = Parsed ns'"
            by (auto split: option.splits if_splits)
          from step_store [OF "2.prems"(2) sv] have "I ns1 seen" .
          with "2.IH" ne po Store Some sv rec show ?thesis
            by blast
        next
          case None
          from "2.prems"(1) ne po Store None obtain b rest' ns1
            where r: "rest = b # rest'" and b: "b \<noteq> ''--'' \<and> parse_optional b = Positional"
              and sv: "store_value (Store v) b ns = Some ns1"
              and rec: "consume_args rest' ns1 seen extras = Parsed ns'"
            by (auto split: list.splits option.splits if_splits)
          from step_store [OF "2.prems"(2) sv] have "I ns1 seen" .
          with "2.IH" ne po Store None r b sv rec show ?thesis
            by blast
        qed
      next
        case StoreInt
        show ?thesis
        proof (cases ex)
          case (Some e)
          from "2.prems"(1) ne po StoreInt Some obtain ns1
            where sv: "store_value StoreInt e ns = Some ns1"
              and rec: "consume_args rest ns1 seen extras = Parsed ns'"
            by (auto split: option.splits if_splits)
          from step_store [OF "2.prems"(2) sv] have i1: "I ns1 seen" .
          from po StoreInt Some have po': "parse_optional a = Optional (Some StoreInt) (Some e)"
            by simp
          show ?thesis
            by (rule "2.IH"(7) [OF ne po' refl refl refl sv rec i1])
        next
          case None
          from "2.prems"(1) ne po StoreInt None obtain b rest' ns1
            where r: "rest = b # rest'" and b: "b \<noteq> ''--'' \<and> parse_optional b = Positional"
              and sv: "store_value StoreInt b ns = Some ns1"
              and rec: "consume_args rest' ns1 seen extras = Parsed ns'"
            by (auto split: list.splits option.splits if_splits)
          from step_store [OF "2.prems"(2) sv] have i1: "I ns1 seen" .
          from po StoreInt None have po': "parse_optional a = Optional (Some StoreInt) None"
            by simp
          show ?thesis
            by (rule "2.IH"(6) [OF ne po' refl refl refl r b sv rec i1])
        qed
      qed
    qed
  qed
qed





lemma parsed_cli_choice:
  assumes "parse_args argv = Parsed ns" and "opts ns V_cli = Some v"
  shows "v \<in> set cli_choices"
proof -
  let ?I = "\<lambda>ns (seen :: flag list). \<forall>v. opts ns V_cli = Some v \<longrightarrow> v \<in> set cli_choices"
  from assms(1) have run: "consume_args argv default_namespace [] False = Parsed ns"
    by (simp add: parse_args_def split: if_splits)
  have init: "?I default_namespace []"
    by (simp add: default_namespace_def)
  have "\<exists>seen'. ?I ns seen'"
  proof (rule consume_args_invariant [where I = ?I, OF run init])
    fix ns :: namespace and seen :: "flag list" and f
    assume "?I ns seen"
    then show "?I (ns\<lparr>flags := (flags ns)(f := True)\<rparr>) (f # seen)"
      by simp
  next
    fix ns seen act e ns1
    assume "?I ns seen" and "store_value act e ns = Some ns1"
    then show "?I ns1 seen"
      by (cases act) (auto split: if_splits option.splits)
  qed
  with assms(2) show ?thesis by blast
qed

lemma no_SetEnv_dispatch:
  "dispatch c args pd sd model = (evs, st) \<Longrightarrow> SetEnv k x \<in> set evs \<Longrightarrow> False"
  by (auto simp: dispatch_def split: if_splits)

lemma CLIProvider_of_value_Some:
  "CLIProvider_of_value x = Some p \<Longrightarrow> x = CLIProvider_value p"
  by (auto simp: CLIProvider_of_value_def CLIProvider_members_def split: if_splits)

subsection \<open>Dispatch without a spec\<close>

text \<open>
  Without a spec identifier and without \<open>--info\<close> the run ends with exit code 1 and
  calls no command handler, whatever the other flags are; with \<open>--info\<close> the
  information is printed and the run returns, whether or not a spec is given.
\<close>

lemma spec_required_without_info:
  assumes "\<not> flags args F_info" and "\<not> given (opts args V_spec)"
  shows "status (run_cli_args c env args) = Exited 1
       \<and> handlers_called (events (run_cli_args c env args)) = []"
  using assms
  by (simp add: run_cli_args_def handlers_called_def Let_def map_filter_simps)

lemma info_needs_no_spec:
  assumes "flags args F_info"
  shows "status (run_cli_args c env args) = Returned
       \<and> handlers_called (events (run_cli_args c env args)) = []
       \<and> Call_print_cli_and_auth_info (get_project_dir c (opts args V_project_dir))
           \<in> set (events (run_cli_args c env args))"
  using assms
  by (simp add: run_cli_args_def handlers_called_def Let_def map_filter_simps)

text \<open>
  Claim C1: with no spec identifier, no \<open>--info\<close> and no \<open>--list\<close>, dispatch
  prints the usage and exits with code 1 without calling a handler; with \<open>--list\<close> or
  \<open>--info\<close> the pre-spec operation runs without a spec.

  The part about \<open>--list\<close> fails: \<open>_run_cli\<close> never reads \<open>args.list\<close>, although
  its comment says ``Require --spec if not listing and not displaying info'' and the
  usage it prints advertises \<open>--list\<close>.  For the arguments \<open>--list\<close> alone the run
  prints the banner and the spec-required usage and exits with code 1;
  \<open>print_specs_list\<close> is not called.
\<close>

theorem list_flag_requires_spec:
  "run_cli c env [''--list''] =
     \<lparr>final_env = env,
      events =
        [Call_print_banner,
         Print ''\<newline>Error: --spec is required'',
         Print ''\<newline>Usage:'',
         Print ''  python auto-claude/run.py --list           # See all specs'',
         Print ''  python auto-claude/run.py --spec 001       # Run a spec'',
         Print ''\<newline>Create a new spec with:'',
         Print ''  claude /spec''],
      status = Exited 1\<rparr>"
proof -
  have "(case parse_args [''--list''] of
           Parsed ns \<Rightarrow> flags ns F_list \<and> \<not> flags ns F_info \<and> opts ns V_spec = None
                        \<and> opts ns V_cli = None
         | ParserExit n \<Rightarrow> False)"
    by code_simp
  then obtain args where "parse_args [''--list''] = Parsed args"
    and "flags args F_list" and "\<not> flags args F_info" and "opts args V_spec = None"
    and "opts args V_cli = None"
    by (auto split: parse_result.splits)
  then show ?thesis
    by (simp add: run_cli_def run_cli_args_def given_def Let_def)
qed

subsection \<open>Provider type\<close>

text \<open>
  Claim C2: \<open>_detect_cli\<close> raises in no environment and for no settings file, a
  file with valid JSON that is not an object included.

  This fails: the \<open>try\<close> block swallows \<open>JSONDecodeError\<close> and \<open>OSError\<close>, but
  \<open>settings.get\<close> on a document that is not an object raises \<open>AttributeError\<close>,
  which the \<open>except\<close> clause does not name.  With no override in the environment and
  the document \<open>[]\<close> the exception leaves \<open>_detect_cli\<close>.
\<close>

theorem detect_cli_raises_on_non_object:
  "detect_cli render_none Map.empty (Document (JArr []))
     = ([], Inl (AttributeError ''list''))"
  by code_simp

text \<open>
  Claim C6, as stated: every override that does not match a \<open>CLIType\<close> value up to
  case is ignored with a warning, and resolution proceeds to the settings file.

  Two runs contradict it.  An override set to the empty string is ignored without any
  warning.  The override \<open>" opencode "\<close> does not equal \<open>"opencode"\<close> up to case,
  yet it decides the result: with a settings file that names \<open>claude\<close> the result is
  \<open>OPENCODE\<close>, where the settings step alone gives \<open>CLAUDE\<close>.
\<close>

theorem provider_type_claim_counterexample:
  "fst (detect_cli render_none (Map.empty(CLI_PROVIDER_ENV \<mapsto> [])) NoFile)
     = [Info ''Using default CLI: claude'']
   \<and> lower '' opencode '' \<noteq> ''opencode''
   \<and> detect_cli render_none (Map.empty(CLI_PROVIDER_ENV \<mapsto> '' opencode ''))
        (Document (JObj [(''cli'', JStr ''claude'')]))
     = ([Info ''CLI from environment: opencode''], Inr OPENCODE)
   \<and> detect_cli render_none Map.empty (Document (JObj [(''cli'', JStr ''claude'')]))
     = ([Info ''CLI from settings: claude''], Inr CLAUDE)"
  by code_simp

text \<open>
  Claim C6, amended: an override whose stripped, lower-cased value is a \<open>CLIType\<close>
  value is returned.  Every other override is ignored and resolution proceeds as if the
  variable were unset: same result, and the same log records, preceded by one warning
  when the stripped value is not empty and by none when it is.  With no override and a
  settings object whose \<open>cli\<close> field is a string equal to \<open>opencode\<close> up to case the
  result is \<open>OPENCODE\<close>; with no override and no settings file it is the default
  \<open>CLAUDE\<close>.
\<close>

theorem provider_type_precedence:
  "(lower (strip (environ_get env CLI_PROVIDER_ENV)) = CLIType_value t
      \<longrightarrow> snd (detect_cli render env sf) = Inr t)
   \<and> (lower (strip (environ_get env CLI_PROVIDER_ENV)) \<noteq> CLIType_value CLAUDE
      \<and> lower (strip (environ_get env CLI_PROVIDER_ENV)) \<noteq> CLIType_value OPENCODE
      \<longrightarrow> snd (detect_cli render env sf)
            = snd (detect_cli render (env(CLI_PROVIDER_ENV := None)) sf)
          \<and> (if strip (environ_get env CLI_PROVIDER_ENV) = []
              then fst (detect_cli render env sf)
                     = fst (detect_cli render (env(CLI_PROVIDER_ENV := None)) sf)
              else \<exists>w. fst (detect_cli render env sf)
                          = Warning w # fst (detect_cli render (env(CLI_PROVIDER_ENV := None)) sf)))
   \<and> (env CLI_PROVIDER_ENV = None \<and> map_of kvs ''cli'' = Some (JStr s)
        \<and> lower s = CLIType_value OPENCODE
      \<longrightarrow> snd (detect_cli render env (Document (JObj kvs))) = Inr OPENCODE)
   \<and> (env CLI_PROVIDER_ENV = None
      \<longrightarrow> detect_cli render env NoFile = ([Info ''Using default CLI: claude''], Inr CLAUDE))"
proof (intro conjI impI)
  assume "lower (strip (environ_get env CLI_PROVIDER_ENV)) = CLIType_value t"
  then show "snd (detect_cli render env sf) = Inr t"
    by (cases t) (simp_all add: detect_cli_def)
next
  assume n: "lower (strip (environ_get env CLI_PROVIDER_ENV)) \<noteq> CLIType_value CLAUDE
           \<and> lower (strip (environ_get env CLI_PROVIDER_ENV)) \<noteq> CLIType_value OPENCODE"
  have u: "lower (strip (environ_get (env(CLI_PROVIDER_ENV := None)) CLI_PROVIDER_ENV)) = []"
    by (simp add: environ_get_def strip_def lstrip_def rstrip_def lower_def)
  from n u show "snd (detect_cli render env sf)
                   = snd (detect_cli render (env(CLI_PROVIDER_ENV := None)) sf)"
    by (simp add: detect_cli_def Let_def split: prod.splits sum.splits option.splits)
  from n u show "if strip (environ_get env CLI_PROVIDER_ENV) = []
              then fst (detect_cli render env sf)
                     = fst (detect_cli render (env(CLI_PROVIDER_ENV := None)) sf)
              else \<exists>w. fst (detect_cli render env sf)
                          = Warning w # fst (detect_cli render (env(CLI_PROVIDER_ENV := None)) sf)"
    by (simp add: detect_cli_def Let_def lower_eq_Nil split: prod.splits sum.splits option.splits)
next
  assume a: "env CLI_PROVIDER_ENV = None \<and> map_of kvs ''cli'' = Some (JStr s)
             \<and> lower s = CLIType_value OPENCODE"
  then have "strip s = s"
    using lower_no_space [of s "''opencode''"] opencode_no_space by simp
  moreover from a have "s \<noteq> []" by (auto simp: lower_def)
  ultimately show "snd (detect_cli render env (Document (JObj kvs))) = Inr OPENCODE"
    using a
    by (simp add: detect_cli_def detect_cli_settings_def environ_get_def py_get_def
        strip_def lstrip_def rstrip_def lower_def)
next
  assume "env CLI_PROVIDER_ENV = None"
  then show "detect_cli render env NoFile = ([Info ''Using default CLI: claude''], Inr CLAUDE)"
    by (simp add: detect_cli_def detect_cli_settings_def environ_get_def
        strip_def lstrip_def rstrip_def lower_def)
qed

theorem provider_type_precedence_witness:
  "snd (detect_cli render_none (Map.empty(CLI_PROVIDER_ENV \<mapsto> '' OpenCode '')) NoFile)
     = Inr OPENCODE
   \<and> snd (detect_cli render_none (Map.empty(CLI_PROVIDER_ENV \<mapsto> ''bogus''))
            (Document (JObj [(''cli'', JStr ''OpenCode'')])))
     = Inr OPENCODE
   \<and> (\<exists>w. fst (detect_cli render_none (Map.empty(CLI_PROVIDER_ENV \<mapsto> ''bogus'')) NoFile)
             = [Warning w, Info ''Using default CLI: claude''])"
proof -
  let ?bogus = "Map.empty(CLI_PROVIDER_ENV \<mapsto> ''bogus'')"
  let ?doc = "Document (JObj [(''cli'', JStr ''OpenCode'')])"
  have h1: "lower (strip (environ_get (Map.empty(CLI_PROVIDER_ENV \<mapsto> '' OpenCode ''))
                      CLI_PROVIDER_ENV)) = CLIType_value OPENCODE"
    by code_simp
  from provider_type_precedence
         [where env = "Map.empty(CLI_PROVIDER_ENV \<mapsto> '' OpenCode '')" and t = OPENCODE
            and render = render_none and sf = NoFile] h1
  have c1: "snd (detect_cli render_none (Map.empty(CLI_PROVIDER_ENV \<mapsto> '' OpenCode '')) NoFile)
              = Inr OPENCODE"
    by blast
  have h2: "lower (strip (environ_get ?bogus CLI_PROVIDER_ENV)) \<noteq> CLIType_value CLAUDE
            \<and> lower (strip (environ_get ?bogus CLI_PROVIDER_ENV)) \<noteq> CLIType_value OPENCODE"
    and h2': "strip (environ_get ?bogus CLI_PROVIDER_ENV) \<noteq> []"
    by code_simp+
  have u: "?bogus(CLI_PROVIDER_ENV := None) = Map.empty"
    by simp
  have h3: "Map.empty CLI_PROVIDER_ENV = None
            \<and> map_of [(''cli'', JStr ''OpenCode'')] ''cli'' = Some (JStr ''OpenCode'')
            \<and> lower ''OpenCode'' = CLIType_value OPENCODE"
    by code_simp
  from provider_type_precedence
         [where env = Map.empty and render = render_none
            and kvs = "[(''cli'', JStr ''OpenCode'')]" and s = "''OpenCode''"] h3
  have c3: "snd (detect_cli render_none Map.empty ?doc) = Inr OPENCODE"
    and c4: "detect_cli render_none Map.empty NoFile
               = ([Info ''Using default CLI: claude''], Inr CLAUDE)"
    by blast+
  from provider_type_precedence [where env = ?bogus and render = render_none and sf = ?doc] h2
  have "snd (detect_cli render_none ?bogus ?doc)
          = snd (detect_cli render_none (?bogus(CLI_PROVIDER_ENV := None)) ?doc)"
    by blast
  with u c3 have c2: "snd (detect_cli render_none ?bogus ?doc) = Inr OPENCODE"
    by simp
  from provider_type_precedence [where env = ?bogus and render = render_none and sf = NoFile]
    h2 h2'
  have "\<exists>w. fst (detect_cli render_none ?bogus NoFile)
               = Warning w # fst (detect_cli render_none (?bogus(CLI_PROVIDER_ENV := None)) NoFile)"
    by presburger
  with u c4 have c5: "\<exists>w. fst (detect_cli render_none ?bogus NoFile)
                        = [Warning w, Info ''Using default CLI: claude'']"
    by simp
  from c1 c2 c5 show ?thesis by simp
qed

text \<open>
  Claim C10: an override that is empty or consists of whitespace only is treated exactly
  like an unset variable: the result and the log records are the same, so no warning about
  an invalid override is emitted.
\<close>

theorem blank_override_like_unset:
  assumes "list_all py_isspace v"
  shows "detect_cli render (env(CLI_PROVIDER_ENV \<mapsto> v)) sf
           = detect_cli render (env(CLI_PROVIDER_ENV := None)) sf"
  using assms by (simp add: detect_cli_def environ_get_def strip_all_space lower_def)

theorem blank_override_like_unset_witness:
  "list_all py_isspace ''  ''
   \<and> detect_cli render_none (Map.empty(CLI_PROVIDER_ENV \<mapsto> ''  ''))
        (Document (JObj [(''cli'', JStr ''opencode'')]))
     = ([Info ''CLI from settings: opencode''], Inr OPENCODE)"
proof -
  have a: "list_all py_isspace ''  ''"
    by code_simp
  have b: "detect_cli render_none (Map.empty(CLI_PROVIDER_ENV := None))
             (Document (JObj [(''cli'', JStr ''opencode'')]))
           = ([Info ''CLI from settings: opencode''], Inr OPENCODE)"
    by code_simp
  from blank_override_like_unset [OF a, of render_none Map.empty] a b show ?thesis
    by simp
qed

subsection \<open>OpenCode provider\<close>

text \<open>
  Claim C3: \<open>get_opencode_provider\<close> never raises, also when the settings document or
  its \<open>opencode\<close> field is not an object.

  This fails in the same way as for \<open>_detect_cli\<close>: \<open>settings.get\<close> and
  \<open>opencode_config.get\<close> raise \<open>AttributeError\<close> on a value that is not an object,
  and the \<open>except\<close> clause names \<open>JSONDecodeError\<close> and \<open>IOError\<close> only.
\<close>

theorem get_opencode_provider_raises_on_non_object:
  "get_opencode_provider render_none Map.empty (Document (JArr []))
     = ([], Inl (AttributeError ''list''))
   \<and> get_opencode_provider render_none Map.empty
         (Document (JObj [(''opencode'', JStr ''openai'')]))
     = ([], Inl (AttributeError ''str''))"
  by code_simp

text \<open>
  Claim C7, as stated: for every override that is not a \<open>CLIProvider\<close> value,
  resolution proceeds to the settings field \<open>opencode.provider\<close> before the default.

  With the override \<open>foo\<close> and a settings file that names \<open>openai\<close>, the function
  warns and returns the default \<open>CLAUDE\<close>; the settings file, which alone gives
  \<open>OPENAI\<close>, is not consulted.
\<close>

theorem sub_provider_claim_counterexample:
  "get_opencode_provider render_none (Map.empty(OPENCODE_PROVIDER_ENV \<mapsto> ''foo''))
     (Document (JObj [(''opencode'', JObj [(''provider'', JStr ''openai'')])]))
     = ([Warning (''Invalid OpenCode provider: '' @ [CHR 0x27] @ ''foo'' @ [CHR 0x27]
                  @ ''. Falling back to default: claude'')],
        Inr Provider_CLAUDE)
   \<and> CLIProvider_of_value ''foo'' = None
   \<and> get_opencode_provider render_none Map.empty
       (Document (JObj [(''opencode'', JObj [(''provider'', JStr ''openai'')])]))
     = ([], Inr OPENAI)"
  by code_simp

text \<open>
  Claim C7, amended: an override whose stripped, lower-cased value is not empty decides
  alone, whatever the settings file holds: a \<open>CLIProvider\<close> value is returned, any other
  value gives a warning and the default.  Only when that value is empty is the settings
  field \<open>opencode.provider\<close> consulted, and a string there that normalises to a
  \<open>CLIProvider\<close> value is returned; with no settings file the result is the default,
  \<open>CLAUDE\<close>, the first member of the enumeration.
\<close>

theorem sub_provider_precedence:
  "(lower (strip (environ_get env OPENCODE_PROVIDER_ENV)) \<noteq> [] \<longrightarrow>
      get_opencode_provider render env sf
        = (case CLIProvider_of_value (lower (strip (environ_get env OPENCODE_PROVIDER_ENV))) of
             Some p \<Rightarrow> ([], Inr p)
           | None \<Rightarrow>
               ([Warning (''Invalid OpenCode provider: '' @ [CHR 0x27]
                          @ lower (strip (environ_get env OPENCODE_PROVIDER_ENV)) @ [CHR 0x27]
                          @ ''. Falling back to default: claude'')],
                Inr Provider_CLAUDE)))
   \<and> (lower (strip (environ_get env OPENCODE_PROVIDER_ENV)) = []
        \<and> map_of kvs ''opencode'' = Some (JObj kvs')
        \<and> map_of kvs' ''provider'' = Some (JStr s)
        \<and> CLIProvider_of_value (lower (strip s)) = Some p
      \<longrightarrow> get_opencode_provider render env (Document (JObj kvs)) = ([], Inr p))
   \<and> (lower (strip (environ_get env OPENCODE_PROVIDER_ENV)) = []
      \<longrightarrow> get_opencode_provider render env NoFile = ([], Inr Provider_CLAUDE))
   \<and> hd CLIProvider_members = Provider_CLAUDE"
proof (intro conjI impI)
  assume "lower (strip (environ_get env OPENCODE_PROVIDER_ENV)) \<noteq> []"
  then show "get_opencode_provider render env sf
        = (case CLIProvider_of_value (lower (strip (environ_get env OPENCODE_PROVIDER_ENV))) of
             Some p \<Rightarrow> ([], Inr p)
           | None \<Rightarrow>
               ([Warning (''Invalid OpenCode provider: '' @ [CHR 0x27]
                          @ lower (strip (environ_get env OPENCODE_PROVIDER_ENV)) @ [CHR 0x27]
                          @ ''. Falling back to default: claude'')],
                Inr Provider_CLAUDE))"
    by (simp add: get_opencode_provider_def Let_def split: option.splits)
next
  assume a: "lower (strip (environ_get env OPENCODE_PROVIDER_ENV)) = []
        \<and> map_of kvs ''opencode'' = Some (JObj kvs')
        \<and> map_of kvs' ''provider'' = Some (JStr s)
        \<and> CLIProvider_of_value (lower (strip s)) = Some p"
  then have ne: "lower (strip s) \<noteq> []"
    using CLIProvider_of_value_Some [of "lower (strip s)" p] by (cases p) auto
  then have "s \<noteq> []"
    by (auto simp: strip_def lstrip_def rstrip_def lower_def)
  with a ne show "get_opencode_provider render env (Document (JObj kvs)) = ([], Inr p)"
    by (simp add: get_opencode_provider_def opencode_provider_settings_def py_get_def Let_def)
next
  assume "lower (strip (environ_get env OPENCODE_PROVIDER_ENV)) = []"
  then show "get_opencode_provider render env NoFile = ([], Inr Provider_CLAUDE)"
    by (simp add: get_opencode_provider_def opencode_provider_settings_def Let_def
        CLIProvider_of_value_def CLIProvider_members_def)
next
  show "hd CLIProvider_members = Provider_CLAUDE"
    by (simp add: CLIProvider_members_def)
qed

theorem sub_provider_precedence_witness:
  "get_opencode_provider render_none (Map.empty(OPENCODE_PROVIDER_ENV \<mapsto> '' Zen ''))
     (Document (JObj [(''opencode'', JObj [(''provider'', JStr ''openai'')])]))
     = ([], Inr ZEN)
   \<and> get_opencode_provider render_none Map.empty
       (Document (JObj [(''opencode'', JObj [(''provider'', JStr ''OpenAI'')])]))
     = ([], Inr OPENAI)
   \<and> get_opencode_provider render_none Map.empty NoFile = ([], Inr Provider_CLAUDE)
   \<and> snd (get_opencode_provider render_none
            (Map.empty(OPENCODE_PROVIDER_ENV \<mapsto> ''bogus'')) NoFile)
     = Inr Provider_CLAUDE"
proof -
  let ?zen = "Map.empty(OPENCODE_PROVIDER_ENV \<mapsto> '' Zen '')"
  have h1: "lower (strip (environ_get ?zen OPENCODE_PROVIDER_ENV)) \<noteq> []"
    and v1: "CLIProvider_of_value (lower (strip (environ_get ?zen OPENCODE_PROVIDER_ENV)))
               = Some ZEN"
    by code_simp+
  from sub_provider_precedence
         [where env = ?zen and render = render_none
            and sf = "Document (JObj [(''opencode'', JObj [(''provider'', JStr ''openai'')])])"]
       h1
  have "get_opencode_provider render_none ?zen
          (Document (JObj [(''opencode'', JObj [(''provider'', JStr ''openai'')])]))
        = (case CLIProvider_of_value (lower (strip (environ_get ?zen OPENCODE_PROVIDER_ENV))) of
             Some p \<Rightarrow> ([], Inr p)
           | None \<Rightarrow>
               ([Warning (''Invalid OpenCode provider: '' @ [CHR 0x27]
                          @ lower (strip (environ_get ?zen OPENCODE_PROVIDER_ENV)) @ [CHR 0x27]
                          @ ''. Falling back to default: claude'')],
                Inr Provider_CLAUDE))"
    by blast
  then have c1: "get_opencode_provider render_none ?zen
          (Document (JObj [(''opencode'', JObj [(''provider'', JStr ''openai'')])]))
        = ([], Inr ZEN)"
    by (simp only: v1 option.case)
  have h2: "lower (strip (environ_get Map.empty OPENCODE_PROVIDER_ENV)) = []
        \<and> map_of [(''opencode'', JObj [(''provider'', JStr ''OpenAI'')])] ''opencode''
            = Some (JObj [(''provider'', JStr ''OpenAI'')])
        \<and> map_of [(''provider'', JStr ''OpenAI'')] ''provider'' = Some (JStr ''OpenAI'')
        \<and> CLIProvider_of_value (lower (strip ''OpenAI'')) = Some OPENAI"
    by code_simp
  from sub_provider_precedence
         [where env = Map.empty and render = render_none
            and kvs = "[(''opencode'', JObj [(''provider'', JStr ''OpenAI'')])]"
            and kvs' = "[(''provider'', JStr ''OpenAI'')]" and s = "''OpenAI''" and p = OPENAI]
       h2
  have c2: "get_opencode_provider render_none Map.empty
              (Document (JObj [(''opencode'', JObj [(''provider'', JStr ''OpenAI'')])]))
            = ([], Inr OPENAI)"
    and c3: "get_opencode_provider render_none Map.empty NoFile = ([], Inr Provider_CLAUDE)"
    by blast+
  let ?bogus = "Map.empty(OPENCODE_PROVIDER_ENV \<mapsto> ''bogus'')"
  have h4: "lower (strip (environ_get ?bogus OPENCODE_PROVIDER_ENV)) \<noteq> []"
    and v4: "CLIProvider_of_value (lower (strip (environ_get ?bogus OPENCODE_PROVIDER_ENV)))
               = None"
    by code_simp+
  from sub_provider_precedence [where env = ?bogus and render = render_none and sf = NoFile] h4
  have "get_opencode_provider render_none ?bogus NoFile
        = (case CLIProvider_of_value (lower (strip (environ_get ?bogus OPENCODE_PROVIDER_ENV))) of
             Some p \<Rightarrow> ([], Inr p)
           | None \<Rightarrow>
               ([Warning (''Invalid OpenCode provider: '' @ [CHR 0x27]
                          @ lower (strip (environ_get ?bogus OPENCODE_PROVIDER_ENV)) @ [CHR 0x27]
                          @ ''. Falling back to default: claude'')],
                Inr Provider_CLAUDE))"
    by blast
  then have c4: "snd (get_opencode_provider render_none ?bogus NoFile) = Inr Provider_CLAUDE"
    by (simp only: v4 option.case snd_conv)
  from c1 c2 c3 c4 show ?thesis by simp
qed

subsection \<open>Validation\<close>



subsection \<open>Dispatch with a resolved spec\<close>

text \<open>
  Claim C4: when \<open>--info\<close> is not set, a spec identifier is given and \<open>find_spec\<close>
  finds it, exactly one handler is called, namely the one selected by the fixed priority
  order merge-preview, merge, review, discard, create-pr, qa-status, review-status, qa,
  followup, with the default build last; this holds for every namespace, also one that
  the parser would reject.  In particular, with \<open>merge\<close> and \<open>review\<close> both set (and
  \<open>merge_preview\<close> not), the merge handler alone is called.
\<close>

theorem dispatch_priority:
  assumes "\<not> flags args F_info"
      and "given (opts args V_spec)"
      and "find_spec c (get_project_dir c (opts args V_project_dir)) (the (opts args V_spec))
             = Some d"
  shows "handlers_called (events (run_cli_args c env args)) = [selected_handler (flags args)]
       \<and> (flags args F_merge \<and> flags args F_review \<and> \<not> flags args F_merge_preview
            \<longrightarrow> handlers_called (events (run_cli_args c env args)) = [H_merge])"
  using assms
  by (simp add: run_cli_args_def dispatch_def handlers_called_def selected_handler_def
      terminal_priority_def Let_def map_filter_simps)

theorem dispatch_priority_witness:
  "\<not> flags merge_and_review F_info \<and> given (opts merge_and_review V_spec)
   \<and> find_spec one_spec (get_project_dir one_spec (opts merge_and_review V_project_dir))
        (the (opts merge_and_review V_spec)) = Some spec_001
   \<and> handlers_called (events (run_cli_args one_spec Map.empty merge_and_review)) = [H_merge]"
proof -
  have a: "\<not> flags merge_and_review F_info"
    by (simp add: merge_and_review_def default_namespace_def)
  have b: "given (opts merge_and_review V_spec)"
    by (simp add: merge_and_review_def default_namespace_def given_def)
  have c: "find_spec one_spec (get_project_dir one_spec (opts merge_and_review V_project_dir))
             (the (opts merge_and_review V_spec)) = Some spec_001"
    by (simp add: merge_and_review_def default_namespace_def one_spec_def)
  have d: "flags merge_and_review F_merge \<and> flags merge_and_review F_review
           \<and> \<not> flags merge_and_review F_merge_preview"
    by (simp add: merge_and_review_def default_namespace_def)
  from dispatch_priority [OF a b c, of Map.empty] a b c d show ?thesis
    by blast
qed

subsection \<open>Mutual exclusion of the terminal operations\<close>




subsection \<open>The provider selector\<close>

text \<open>
  Claim C9: when \<open>--cli\<close> has a value, the run sets \<open>CLI_PROVIDER\<close> to exactly
  that value as its first observable step, before any handler is called; no other
  variable of the environment changes and no other assignment to the environment occurs.
  Every \<open>CLIManager\<close> constructed in the resulting environment has the selected
  provider type, whatever the settings file holds.
\<close>

theorem cli_selector_sets_override:
  assumes "parse_args argv = Parsed args" and "opts args V_cli = Some v"
  shows "final_env (run_cli c env argv) = env(''CLI_PROVIDER'' \<mapsto> v)
       \<and> (\<exists>rest. events (run_cli c env argv) = SetEnv ''CLI_PROVIDER'' v # rest
              \<and> (\<forall>k x. SetEnv k x \<notin> set rest))
       \<and> (\<exists>t. CLIType_value t = v
              \<and> (\<forall>render sf dir.
                    snd (CLIManager_init render (final_env (run_cli c env argv)) sf dir)
                      = Inr \<lparr>project_dir = dir, cli_type = t\<rparr>))"
proof -
  from parsed_cli_choice [OF assms] have v: "v = ''claude'' \<or> v = ''opencode''"
    by (simp add: cli_choices_def)
  then have g: "given (opts args V_cli)"
    using assms(2) by (auto simp: given_def)
  have env: "final_env (run_cli c env argv) = env(''CLI_PROVIDER'' \<mapsto> v)"
    using assms g
    by (simp add: run_cli_def run_cli_args_def Let_def split: option.splits prod.splits)
  have ev: "\<exists>rest. events (run_cli c env argv) = SetEnv ''CLI_PROVIDER'' v # rest
              \<and> (\<forall>k x. SetEnv k x \<notin> set rest)"
    using assms g
    by (auto simp: run_cli_def run_cli_args_def Let_def split: option.splits prod.splits
        dest: no_SetEnv_dispatch)
  from v have "\<exists>t. CLIType_value t = v
              \<and> (\<forall>render sf dir.
                    snd (CLIManager_init render (env(''CLI_PROVIDER'' \<mapsto> v)) sf dir)
                      = Inr \<lparr>project_dir = dir, cli_type = t\<rparr>)"
  proof
    assume "v = ''claude''"
    then have "CLIType_value CLAUDE = v
              \<and> (\<forall>render sf dir.
                    snd (CLIManager_init render (env(''CLI_PROVIDER'' \<mapsto> v)) sf dir)
                      = Inr \<lparr>project_dir = dir, cli_type = CLAUDE\<rparr>)"
      by (simp add: CLIManager_init_def detect_cli_def environ_get_def CLI_PROVIDER_ENV_def
          norm_claude)
    then show ?thesis ..
  next
    assume "v = ''opencode''"
    then have "CLIType_value OPENCODE = v
              \<and> (\<forall>render sf dir.
                    snd (CLIManager_init render (env(''CLI_PROVIDER'' \<mapsto> v)) sf dir)
                      = Inr \<lparr>project_dir = dir, cli_type = OPENCODE\<rparr>)"
      by (simp add: CLIManager_init_def detect_cli_def environ_get_def CLI_PROVIDER_ENV_def
          norm_opencode)
    then show ?thesis ..
  qed
  with env ev show ?thesis by simp
qed

theorem cli_selector_sets_override_witness:
  "final_env (run_cli no_specs Map.empty [''--cli'', ''opencode'', ''--info''])
     = Map.empty(''CLI_PROVIDER'' \<mapsto> ''opencode'')
   \<and> snd (CLIManager_init render_none
            (final_env (run_cli no_specs Map.empty [''--cli'', ''opencode'', ''--info'']))
            (Document (JObj [(''cli'', JStr ''claude'')])) ''/project'')
       = Inr \<lparr>project_dir = ''/project'', cli_type = OPENCODE\<rparr>"
proof -
  have "(case parse_args [''--cli'', ''opencode'', ''--info''] of
           Parsed ns \<Rightarrow> opts ns V_cli = Some ''opencode'' | ParserExit n \<Rightarrow> False)"
    by code_simp
  then obtain args where p: "parse_args [''--cli'', ''opencode'', ''--info''] = Parsed args"
    and o: "opts args V_cli = Some ''opencode''"
    by (auto split: parse_result.splits)
  from cli_selector_sets_override [OF p o, of no_specs Map.empty]
  obtain t where e: "final_env (run_cli no_specs Map.empty [''--cli'', ''opencode'', ''--info''])
                       = Map.empty(''CLI_PROVIDER'' \<mapsto> ''opencode'')"
    and t: "CLIType_value t = ''opencode''"
    and m: "\<And>render sf dir.
              snd (CLIManager_init render
                     (final_env (run_cli no_specs Map.empty [''--cli'', ''opencode'', ''--info'']))
                     sf dir) = Inr \<lparr>project_dir = dir, cli_type = t\<rparr>"
    by blast
  from t have "t = OPENCODE" by (cases t) simp_all
  with e m show ?thesis by simp
qed

end
